theory Spec2Isabelle
  imports Main "HOL-Library.Word" "HOL-Library.Signed_Division"
begin

unbundle bit_operations_syntax

section \<open>Durations and instants\<close>

text \<open>
  Go's \<^verbatim>\<open>time.Duration\<close> is an \<^verbatim>\<open>int64\<close> count of nanoseconds: addition wraps around,
  division and remainder truncate towards zero.  An instant (\<^verbatim>\<open>time.Time\<close>) is kept as
  an unbounded count of nanoseconds; \<^verbatim>\<open>Time.Sub\<close> saturates at the ends of the
  \<^verbatim>\<open>int64\<close> range, as the Go library does.
\<close>

type_synonym Duration = "64 word"
type_synonym Time = int

definition Millisecond :: Duration where
  "Millisecond = 1000000"

definition Second :: Duration where
  "Second = 1000 * Millisecond"

definition Minute :: Duration where
  "Minute = 60 * Second"

definition duration_div :: "Duration \<Rightarrow> Duration \<Rightarrow> Duration" where
  "duration_div a b = word_of_int (sint a sdiv sint b)"

definition duration_rem :: "Duration \<Rightarrow> Duration \<Rightarrow> Duration" where
  "duration_rem a b = word_of_int (sint a smod sint b)"

definition time_Add :: "Time \<Rightarrow> Duration \<Rightarrow> Time" where
  "time_Add t d = t + sint d"

definition time_Sub :: "Time \<Rightarrow> Time \<Rightarrow> Duration" where
  "time_Sub t u = word_of_int (max (- (2 ^ 63)) (min (2 ^ 63 - 1) (t - u)))"

definition time_Until :: "Time \<Rightarrow> Time \<Rightarrow> Duration" where
  "time_Until t now = time_Sub t now"

section \<open>Formatting\<close>

text \<open>
  \<^verbatim>\<open>fmt.Sprintf("%2d", n)\<close> and \<^verbatim>\<open>fmt.Sprintf("%02d", n)\<close> for an unsigned \<^verbatim>\<open>n\<close>:
  the decimal digits of \<^verbatim>\<open>n\<close>, padded on the left to a minimum width of two with
  blanks and with zeros respectively.  The width is a minimum: longer numbers are
  printed in full.
\<close>

fun formatUint :: "nat \<Rightarrow> string" where
  "formatUint n =
     (if n < 10 then [''0123456789'' ! n]
      else formatUint (n div 10) @ [''0123456789'' ! (n mod 10)])"

declare formatUint.simps [simp del]

definition pad :: "char \<Rightarrow> nat \<Rightarrow> string \<Rightarrow> string" where
  "pad c w s = replicate (w - length s) c @ s"

definition Sprintf_2d :: "nat \<Rightarrow> string" where
  "Sprintf_2d n = pad (CHR '' '') 2 (formatUint n)"

definition Sprintf_02d :: "nat \<Rightarrow> string" where
  "Sprintf_02d n = pad (CHR ''0'') 2 (formatUint n)"

section \<open>The timer\<close>

text \<open>
  The delimiter's colour is only ever a \<^verbatim>\<open>color.Gray\<close>; its \<^verbatim>\<open>RGBA\<close> red channel is
  the 8-bit luminance repeated in both bytes of a 16-bit value.
\<close>

datatype Color = Gray (Y: "8 word")

fun RGBA_r :: "Color \<Rightarrow> 32 word" where
  "RGBA_r (Gray y) = (ucast y) OR (push_bit 8 (ucast y))"

text \<open>
  The struct \<^verbatim>\<open>Pomodoro\<close>.  The three text widgets are kept by their \<^verbatim>\<open>Text\<close>, the
  delimiter by its \<^verbatim>\<open>Color\<close>.  \<^verbatim>\<open>TickerCancel\<close> is \<^verbatim>\<open>nil\<close> or the cancel function of
  the context with the given number.
\<close>

record Pomodoro =
  Description :: string
  MinutesText :: string
  Delimiter :: Color
  SecondsText :: string
  Deadline :: Time
  NextWorkInterval :: Duration
  NextRestInterval :: Duration
  IsWork :: bool
  TickerCancel :: "nat option"

text \<open>
  \<^verbatim>\<open>setTimeLeft\<close>.  The conversion \<^verbatim>\<open>uint(...)\<close> of an \<^verbatim>\<open>int64\<close> keeps the 64 bits
  (a 64-bit platform), so a negative quotient is printed as a large unsigned number.
\<close>

definition setTimeLeft :: "Duration \<Rightarrow> 'a Pomodoro_scheme \<Rightarrow> 'a Pomodoro_scheme" where
  "setTimeLeft timeLeft p =
     (let timeLeft = timeLeft + 200 * Millisecond;
          minutes = duration_div timeLeft Minute;
          seconds = duration_div (duration_rem timeLeft Minute) Second
      in p\<lparr>MinutesText := Sprintf_2d (unat minutes),
            SecondsText := Sprintf_02d (unat seconds)\<rparr>)"

text \<open>
  Each call of \<^verbatim>\<open>Start\<close> makes one cancellable context, one ticker and one goroutine.
  They are numbered in the order of their creation.  A goroutine is either about to
  make its first, unconditional call of \<^verbatim>\<open>Tick\<close>, or is in the \<^verbatim>\<open>select\<close> of its loop,
  or has returned.  \<^verbatim>\<open>ctx_done\<close> says that its context has been cancelled.
\<close>

datatype Location = AtFirstTick | AtSelect | Returned

record Goroutine =
  ctx_done :: bool
  ticker_period :: Duration
  at :: Location

text \<open>
  The timer together with what the program has running beside it: the ticking
  goroutines, the number of alarm goroutines that were launched, and the lines
  written to the log.
\<close>

record World = Pomodoro +
  tickers :: "Goroutine list"
  alarms :: nat
  logged :: "string list"

definition audioEnabled :: bool where
  "audioEnabled = False"

definition zeroTime :: Time where
  "zeroTime = - 62135596800 * 1000000000"

text \<open>Calling the cancel function of context \<open>c\<close>.\<close>

definition cancel :: "nat \<Rightarrow> Goroutine list \<Rightarrow> Goroutine list" where
  "cancel c gs = (if c < length gs then gs[c := (gs ! c)\<lparr>ctx_done := True\<rparr>] else gs)"

definition SetNextInterval :: "Duration \<Rightarrow> Time \<Rightarrow> 'a Pomodoro_scheme \<Rightarrow> 'a Pomodoro_scheme" where
  "SetNextInterval nextInterval now p =
     (let p = (if IsWork p then p\<lparr>NextWorkInterval := nextInterval\<rparr>
               else p\<lparr>NextRestInterval := nextInterval\<rparr>);
          p = p\<lparr>Deadline := time_Add now nextInterval\<rparr>
      in setTimeLeft nextInterval p)"

definition setIsWork :: "bool \<Rightarrow> 'a Pomodoro_scheme \<Rightarrow> 'a Pomodoro_scheme" where
  "setIsWork isWork p =
     (let p = (if isWork then setTimeLeft (NextWorkInterval p) (p\<lparr>Description := ''FOCUS''\<rparr>)
               else setTimeLeft (NextRestInterval p) (p\<lparr>Description := ''REST''\<rparr>))
      in p\<lparr>IsWork := isWork\<rparr>)"

definition Start :: "bool \<Rightarrow> Time \<Rightarrow> World \<Rightarrow> World" where
  "Start isWork now w =
     (let w = setIsWork isWork w;
          ctx = length (tickers w);
          w = (case TickerCancel w of
                 Some c \<Rightarrow> w\<lparr>tickers := cancel c (tickers w)\<rparr>
               | None \<Rightarrow> w);
          w = w\<lparr>TickerCancel := Some ctx\<rparr>;
          w = (if IsWork w then w\<lparr>Deadline := time_Add now (NextWorkInterval w)\<rparr>
               else w\<lparr>Deadline := time_Add now (NextRestInterval w)\<rparr>)
      in w\<lparr>tickers := tickers w @
              [\<lparr>ctx_done = False, ticker_period = Second, at = AtFirstTick\<rparr>]\<rparr>)"

definition StopTimer :: "World \<Rightarrow> World" where
  "StopTimer w =
     (let w = w\<lparr>Description := []\<rparr>;
          w = (case TickerCancel w of
                 Some c \<Rightarrow> w\<lparr>tickers := cancel c (tickers w)\<rparr>
               | None \<Rightarrow> w);
          w = w\<lparr>TickerCancel := None\<rparr>
      in w\<lparr>Delimiter := Gray 128\<rparr>)"

definition endTimer :: "World \<Rightarrow> World" where
  "endTimer w =
     (let w = (case TickerCancel w of
                 Some c \<Rightarrow> w\<lparr>tickers := cancel c (tickers w), TickerCancel := None\<rparr>
               | None \<Rightarrow> w);
          w = (if audioEnabled then w\<lparr>alarms := alarms w + 1\<rparr> else w)
      in setIsWork (\<not> IsWork w) w)"

definition Tick :: "Time \<Rightarrow> World \<Rightarrow> World" where
  "Tick now w =
     (let w = (if 10000 < RGBA_r (Delimiter w) then w\<lparr>Delimiter := Gray 22\<rparr>
               else w\<lparr>Delimiter := Gray 128\<rparr>);
          timeLeft = time_Until (Deadline w) now
      in if sint timeLeft \<le> 0 then endTimer w else setTimeLeft timeLeft w)"

text \<open>
  \<^verbatim>\<open>New\<close>: the struct literal (every field not named there has Go's zero value), the
  widgets' initial texts and colour, and the closing call \<^verbatim>\<open>SetNextInterval(60 * time.Minute)\<close>.
\<close>

definition New :: "Time \<Rightarrow> World" where
  "New now =
     SetNextInterval (60 * Minute) now
       \<lparr>Description = [], MinutesText = [], Delimiter = Gray 128, SecondsText = [],
        Deadline = zeroTime, NextWorkInterval = 0, NextRestInterval = 15 * Minute,
        IsWork = True, TickerCancel = None, tickers = [], alarms = 0, logged = []\<rparr>"

text \<open>The durations of the eight interval buttons of \<^verbatim>\<open>New\<close>.\<close>

definition buttonIntervals :: "Duration list" where
  "buttonIntervals =
     [5 * Minute, 15 * Minute, 30 * Minute, 45 * Minute,
      60 * Minute, 75 * Minute, 90 * Minute, 105 * Minute]"

subsection \<open>The program as a transition system\<close>

text \<open>
  Every method body runs under \<^verbatim>\<open>Locker\<close>, so the program's behaviours are the
  interleavings of whole method calls.  The user's buttons call \<^verbatim>\<open>Start\<close>,
  \<^verbatim>\<open>StopTimer\<close> and \<^verbatim>\<open>SetNextInterval\<close>.  Goroutine \<open>g\<close> calls \<^verbatim>\<open>Tick\<close> when it starts and
  whenever its \<^verbatim>\<open>select\<close> takes the ticker's channel, and it returns when its
  \<^verbatim>\<open>select\<close> takes the channel of its cancelled context.  When both channels are
  ready \<^verbatim>\<open>select\<close> may take either.  The instants at which the ticker's channel
  becomes ready are left open.
\<close>

datatype Event =
    CallStart bool Time
  | CallStopTimer
  | CallSetNextInterval Duration Time
  | TickerTick nat Time
  | TickerDone nat

definition moveTo :: "nat \<Rightarrow> Location \<Rightarrow> World \<Rightarrow> World" where
  "moveTo g l w = w\<lparr>tickers := (tickers w)[g := (tickers w ! g)\<lparr>at := l\<rparr>]\<rparr>"

fun step :: "Event \<Rightarrow> World \<Rightarrow> World option" where
  "step (CallStart isWork now) w = Some (Start isWork now w)"
| "step CallStopTimer w = Some (StopTimer w)"
| "step (CallSetNextInterval d now) w = Some (SetNextInterval d now w)"
| "step (TickerTick g now) w =
     (if g < length (tickers w) \<and> at (tickers w ! g) \<noteq> Returned
      then Some (moveTo g AtSelect (Tick now w)) else None)"
| "step (TickerDone g) w =
     (if g < length (tickers w) \<and> at (tickers w ! g) = AtSelect \<and> ctx_done (tickers w ! g)
      then Some (moveTo g Returned w) else None)"

fun run :: "Event list \<Rightarrow> World \<Rightarrow> World option" where
  "run [] w = Some w"
| "run (e # es) w = (case step e w of None \<Rightarrow> None | Some w' \<Rightarrow> run es w')"

text \<open>The goroutines that have not returned, and those whose context is not cancelled.\<close>

definition alive :: "World \<Rightarrow> nat list" where
  "alive w = filter (\<lambda>g. at (tickers w ! g) \<noteq> Returned) [0..<length (tickers w)]"

definition uncancelled :: "World \<Rightarrow> nat list" where
  "uncancelled w = filter (\<lambda>g. \<not> ctx_done (tickers w ! g)) [0..<length (tickers w)]"

text \<open>
  The stored handle and the contexts agree: the contexts that are not cancelled are
  exactly the one the handle cancels, if there is a handle, and none otherwise.
\<close>

definition handle_ok :: "World \<Rightarrow> bool" where
  "handle_ok w = (uncancelled w = (case TickerCancel w of None \<Rightarrow> [] | Some c \<Rightarrow> [c]))"

text \<open>
  The same, goroutine by goroutine, together with the fact that a goroutine that has
  returned has a cancelled context.
\<close>

definition agree :: "World \<Rightarrow> bool" where
  "agree w =
     (list_all (\<lambda>g. (\<not> ctx_done (tickers w ! g)) = (TickerCancel w = Some g) \<and>
                    (ctx_done (tickers w ! g) \<or> at (tickers w ! g) \<noteq> Returned))
        [0..<length (tickers w)] \<and>
      (case TickerCancel w of None \<Rightarrow> True | Some c \<Rightarrow> c < length (tickers w)))"

subsection \<open>The alarm\<close>








section \<open>Basic facts about the operations\<close>

lemma sint_word_of_int_64:
  "- (2 ^ 63) \<le> k \<Longrightarrow> k < 2 ^ 63 \<Longrightarrow> sint (word_of_int k :: 64 word) = k"
  by (simp add: sint_sbintrunc' signed_take_bit_int_eq_self)

lemma unat_word_of_int_64:
  "0 \<le> k \<Longrightarrow> k < 2 ^ 64 \<Longrightarrow> unat (word_of_int k :: 64 word) = nat k"
  by (simp add: unat_eq_nat_uint uint_word_of_int)

text \<open>The remaining time is not positive exactly when the deadline is not in the future.\<close>

lemma time_Until_expired: "(sint (time_Until t now) \<le> 0) = (t \<le> now)"
proof -
  let ?k = "max (- (2 ^ 63)) (min (2 ^ 63 - 1) (t - now)) :: int"
  have "- (2 ^ 63) \<le> ?k" "?k < 2 ^ 63"
    by simp_all
  then have "sint (word_of_int ?k :: 64 word) = ?k"
    by (rule sint_word_of_int_64)
  moreover have "(?k \<le> 0) = (t \<le> now)"
    by auto
  ultimately show ?thesis
    by (simp add: time_Until_def time_Sub_def)
qed

lemma setTimeLeft_frame [simp]:
  "Description (setTimeLeft d p) = Description p"
  "Delimiter (setTimeLeft d p) = Delimiter p"
  "Deadline (setTimeLeft d p) = Deadline p"
  "NextWorkInterval (setTimeLeft d p) = NextWorkInterval p"
  "NextRestInterval (setTimeLeft d p) = NextRestInterval p"
  "IsWork (setTimeLeft d p) = IsWork p"
  "TickerCancel (setTimeLeft d p) = TickerCancel p"
  by (simp_all add: setTimeLeft_def Let_def)

lemma setTimeLeft_world [simp]:
  "tickers (setTimeLeft d w) = tickers w"
  "alarms (setTimeLeft d w) = alarms w"
  "logged (setTimeLeft d w) = logged w"
  by (simp_all add: setTimeLeft_def Let_def)

lemma setTimeLeft_texts:
  "MinutesText (setTimeLeft d p) =
     Sprintf_2d (unat (duration_div (d + 200000000) 60000000000))"
  "SecondsText (setTimeLeft d p) =
     Sprintf_02d (unat (duration_div (duration_rem (d + 200000000) 60000000000) 1000000000))"
  by (simp_all add: setTimeLeft_def Let_def Minute_def Second_def Millisecond_def)

lemma setTimeLeft_text:
  "MinutesText (setTimeLeft d (p\<lparr>Description := x\<rparr>)) = MinutesText (setTimeLeft d p)"
  "SecondsText (setTimeLeft d (p\<lparr>Description := x\<rparr>)) = SecondsText (setTimeLeft d p)"
  by (simp_all add: setTimeLeft_def Let_def)

lemma setIsWork_fields [simp]:
  "IsWork (setIsWork b p) = b"
  "Description (setIsWork b p) = (if b then ''FOCUS'' else ''REST'')"
  "Delimiter (setIsWork b p) = Delimiter p"
  "Deadline (setIsWork b p) = Deadline p"
  "NextWorkInterval (setIsWork b p) = NextWorkInterval p"
  "NextRestInterval (setIsWork b p) = NextRestInterval p"
  "TickerCancel (setIsWork b p) = TickerCancel p"
  "MinutesText (setIsWork b p) =
     MinutesText (setTimeLeft (if b then NextWorkInterval p else NextRestInterval p) p)"
  "SecondsText (setIsWork b p) =
     SecondsText (setTimeLeft (if b then NextWorkInterval p else NextRestInterval p) p)"
  by (simp_all add: setIsWork_def Let_def setTimeLeft_text)

lemma setIsWork_world [simp]:
  "tickers (setIsWork b w) = tickers w"
  "alarms (setIsWork b w) = alarms w"
  "logged (setIsWork b w) = logged w"
  by (simp_all add: setIsWork_def Let_def)

lemma cancel_length [simp]: "length (cancel c gs) = length gs"
  by (simp add: cancel_def)

lemma cancel_nth:
  "g < length gs \<Longrightarrow>
   cancel c gs ! g = (if g = c then (gs ! g)\<lparr>ctx_done := True\<rparr> else gs ! g)"
  by (simp add: cancel_def)

lemma Tick_expired_eq:
  "Deadline w \<le> now \<Longrightarrow>
   Tick now w =
     endTimer (w\<lparr>Delimiter := (if 10000 < RGBA_r (Delimiter w) then Gray 22 else Gray 128)\<rparr>)"
  by (simp add: Tick_def Let_def time_Until_expired)

section \<open>The display format\<close>

lemma formatUint_small: "n < 10 \<Longrightarrow> formatUint n = [''0123456789'' ! n]"
  by (simp add: formatUint.simps)

lemma fmt_buttons:
  "formatUint 0 = ''0''" "formatUint 5 = ''5''" "formatUint 15 = ''15''"
  "formatUint 30 = ''30''" "formatUint 45 = ''45''" "formatUint 60 = ''60''"
  "formatUint 75 = ''75''" "formatUint 90 = ''90''" "formatUint 105 = ''105''"
  by (simp_all add: formatUint.simps)

lemma formatUint_length_pos: "0 < length (formatUint n)"
  by (subst formatUint.simps) simp

lemma formatUint_length_1: "n < 10 \<Longrightarrow> length (formatUint n) = 1"
  by (subst formatUint.simps) simp

lemma formatUint_length_2: "10 \<le> n \<Longrightarrow> n < 100 \<Longrightarrow> length (formatUint n) = 2"
  by (subst formatUint.simps) (simp add: formatUint_length_1)

lemma formatUint_length_ge2: "10 \<le> n \<Longrightarrow> 2 \<le> length (formatUint n)"
proof -
  assume n: "10 \<le> n"
  have "formatUint (n div 10) \<noteq> []"
    using formatUint_length_pos [of "n div 10"] by simp
  then have "Suc 0 \<le> length (formatUint (n div 10))"
    by (cases "formatUint (n div 10)") simp_all
  with n show ?thesis
    by (subst formatUint.simps) simp
qed

lemma formatUint_length_3: "100 \<le> n \<Longrightarrow> 3 \<le> length (formatUint n)"
proof -
  assume n: "100 \<le> n"
  then have "10 \<le> n div 10" by simp
  then have "2 \<le> length (formatUint (n div 10))"
    by (rule formatUint_length_ge2)
  with n show ?thesis
    by (subst formatUint.simps) simp
qed

lemma pad_length: "length (pad c w s) = max w (length s)"
  by (simp add: pad_def)

lemma Sprintf_02d_length: "n < 100 \<Longrightarrow> length (Sprintf_02d n) = 2"
  using formatUint_length_1 [of n] formatUint_length_2 [of n]
  by (cases "n < 10") (simp_all add: Sprintf_02d_def pad_length)

lemma Sprintf_2d_length:
  "2 \<le> length (Sprintf_2d n)" "(length (Sprintf_2d n) = 2) = (n < 100)"
  using formatUint_length_1 [of n] formatUint_length_2 [of n] formatUint_length_3 [of n]
  by (cases "n < 10"; cases "n < 100"; simp add: Sprintf_2d_def pad_length)+

lemma sint_add_bias:
  assumes "0 \<le> sint (d :: Duration)" "sint d + 200000000 < 2 ^ 63"
  shows "sint (d + 200 * Millisecond) = sint d + 200000000"
proof -
  have "sint (d + 200000000) = signed_take_bit 63 (sint d + sint (200000000 :: Duration))"
    by (simp add: sint_word_ariths)
  also have "\<dots> = sint d + 200000000"
    using assms by (simp add: signed_take_bit_int_eq_self)
  finally show ?thesis
    by (simp add: Millisecond_def)
qed

lemma setTimeLeft_nonneg:
  assumes "0 \<le> sint (d :: Duration)" "sint d + 200000000 < 2 ^ 63"
  shows "MinutesText (setTimeLeft d p) =
           Sprintf_2d (nat ((sint d + 200000000) div 60000000000))"
    and "SecondsText (setTimeLeft d p) =
           Sprintf_02d (nat ((sint d + 200000000) mod 60000000000 div 1000000000))"
proof -
  let ?x = "sint d + 200000000"
  have x: "0 \<le> ?x" "?x < 2 ^ 63" using assms by simp_all
  have tl: "sint (d + 200 * Millisecond) = ?x"
    using assms by (rule sint_add_bias)
  have M: "sint Minute = 60000000000" "sint Second = 1000000000"
    by (simp_all add: Minute_def Second_def Millisecond_def)
  have q: "?x sdiv 60000000000 = ?x div 60000000000"
    using x by (simp add: signed_divide_int_def sgn_if)
  have qb: "0 \<le> ?x div 60000000000" "?x div 60000000000 < 2 ^ 64"
    using x by (simp_all add: div_int_pos_iff) 
  have r: "?x smod 60000000000 = ?x mod 60000000000"
    using x by (simp add: signed_modulo_int_def sgn_if)
  have rb: "0 \<le> ?x mod 60000000000" "?x mod 60000000000 < 60000000000"
    by simp_all
  have rs: "sint (word_of_int (?x mod 60000000000) :: Duration) = ?x mod 60000000000"
    using rb by (intro sint_word_of_int_64) simp_all
  have s: "(?x mod 60000000000) sdiv 1000000000 = ?x mod 60000000000 div 1000000000"
    using rb by (simp add: signed_divide_int_def sgn_if)
  have sb: "0 \<le> ?x mod 60000000000 div 1000000000" "?x mod 60000000000 div 1000000000 < 2 ^ 64"
    using rb by (simp_all add: div_int_pos_iff)
  show "MinutesText (setTimeLeft d p) = Sprintf_2d (nat (?x div 60000000000))"
    using qb by (simp add: setTimeLeft_def Let_def duration_div_def tl M q unat_word_of_int_64)
  show "SecondsText (setTimeLeft d p) =
           Sprintf_02d (nat (?x mod 60000000000 div 1000000000))"
    using sb
    by (simp add: setTimeLeft_def Let_def duration_div_def duration_rem_def tl M r rs s
        unat_word_of_int_64)
qed

lemma button_values:
  "buttonIntervals =
     [300000000000, 900000000000, 1800000000000, 2700000000000,
      3600000000000, 4500000000000, 5400000000000, 6300000000000]"
  by (simp add: buttonIntervals_def Minute_def Second_def Millisecond_def)

lemma button_display:
  "map (\<lambda>d. (MinutesText (setTimeLeft d p), SecondsText (setTimeLeft d p))) buttonIntervals =
     [('' 5'', ''00''), (''15'', ''00''), (''30'', ''00''), (''45'', ''00''),
      (''60'', ''00''), (''75'', ''00''), (''90'', ''00''), (''105'', ''00'')]"
  by (simp add: button_values setTimeLeft_def Let_def Minute_def Second_def Millisecond_def
      duration_div_def duration_rem_def signed_divide_int_def signed_modulo_int_def
      Sprintf_2d_def Sprintf_02d_def pad_def fmt_buttons)

lemma minutes_lt_100:
  "0 \<le> (y::int) \<Longrightarrow> (nat (y div 60000000000) < 100) = (y < 6000000000000)"
proof -
  assume "0 \<le> y"
  then have "0 \<le> y div 60000000000"
    by (simp add: div_int_pos_iff)
  then have "(nat (y div 60000000000) < 100) = (y div 60000000000 < 100)"
    by linarith
  also have "\<dots> = (y < 6000000000000)"
    by linarith
  finally show ?thesis .
qed

lemma seconds_lt_100: "nat ((y::int) mod 60000000000 div 1000000000) < 100"
proof -
  have "y mod 60000000000 < 60000000000"
    by simp
  then have "y mod 60000000000 div 1000000000 < 100"
    by linarith
  then show ?thesis
    by linarith
qed

text \<open>
  C4.  The displayed minutes and seconds are those of the remaining duration plus a
  fixed bias of 200 milliseconds, split into whole minutes and whole seconds: for a
  remaining duration of \<open>d\<close> nanoseconds that is not negative, the minutes shown are
  \<open>(d + 200000000) div 60000000000\<close> and the seconds shown are the whole seconds of
  the rest.  A remaining duration of 59.9 seconds is shown as minutes \<^verbatim>\<open>" 1"\<close> and
  seconds \<^verbatim>\<open>"00"\<close>, and a remaining duration of exactly 0 as \<^verbatim>\<open>" 0"\<close> and \<^verbatim>\<open>"00"\<close>.
\<close>

theorem setTimeLeft_bias:
  "MinutesText (setTimeLeft d p) =
     Sprintf_2d (unat (duration_div (d + 200000000) 60000000000)) \<and>
   SecondsText (setTimeLeft d p) =
     Sprintf_02d (unat (duration_div (duration_rem (d + 200000000) 60000000000) 1000000000)) \<and>
   (0 \<le> sint d \<and> sint d + 200000000 < 2 ^ 63 \<longrightarrow>
      MinutesText (setTimeLeft d p) =
        Sprintf_2d (nat ((sint d + 200000000) div 60000000000)) \<and>
      SecondsText (setTimeLeft d p) =
        Sprintf_02d (nat ((sint d + 200000000) mod 60000000000 div 1000000000))) \<and>
   MinutesText (setTimeLeft 59900000000 p) = '' 1'' \<and>
   SecondsText (setTimeLeft 59900000000 p) = ''00'' \<and>
   MinutesText (setTimeLeft 0 p) = '' 0'' \<and>
   SecondsText (setTimeLeft 0 p) = ''00''"
proof -
  have "MinutesText (setTimeLeft d p) =
      Sprintf_2d (unat (duration_div (d + 200000000) 60000000000))"
    and "SecondsText (setTimeLeft d p) =
      Sprintf_02d (unat (duration_div (duration_rem (d + 200000000) 60000000000) 1000000000))"
    by (simp_all add: setTimeLeft_def Let_def Minute_def Second_def Millisecond_def)
  moreover have "MinutesText (setTimeLeft 59900000000 p) = '' 1''"
    and "SecondsText (setTimeLeft 59900000000 p) = ''00''"
    and "MinutesText (setTimeLeft 0 p) = '' 0''"
    and "SecondsText (setTimeLeft 0 p) = ''00''"
    by (simp_all add: setTimeLeft_def Let_def Minute_def Second_def Millisecond_def
        duration_div_def duration_rem_def signed_divide_int_def signed_modulo_int_def
        Sprintf_2d_def Sprintf_02d_def pad_def formatUint_small)
  ultimately show ?thesis
    using setTimeLeft_nonneg [of d p] by blast
qed

theorem setTimeLeft_bias_witness:
  "0 \<le> sint (59900000000 :: Duration) \<and> sint (59900000000 :: Duration) + 200000000 < 2 ^ 63 \<and>
   MinutesText (setTimeLeft 59900000000 (New 0)) = Sprintf_2d (nat (60100000000 div 60000000000)) \<and>
   SecondsText (setTimeLeft 59900000000 (New 0)) =
     Sprintf_02d (nat (60100000000 mod 60000000000 div 1000000000)) \<and>
   MinutesText (setTimeLeft 59900000000 (New 0)) = '' 1'' \<and>
   SecondsText (setTimeLeft 59900000000 (New 0)) = ''00''"
proof -
  have h: "0 \<le> sint (59900000000 :: Duration) \<and>
      sint (59900000000 :: Duration) + 200000000 < 2 ^ 63"
    by simp
  have v: "sint (59900000000 :: Duration) + 200000000 = 60100000000"
    by simp
  from setTimeLeft_bias [of 59900000000 "New 0"] h
  have "MinutesText (setTimeLeft 59900000000 (New 0)) =
        Sprintf_2d (nat ((sint (59900000000 :: Duration) + 200000000) div 60000000000))"
    and "SecondsText (setTimeLeft 59900000000 (New 0)) =
        Sprintf_02d (nat ((sint (59900000000 :: Duration) + 200000000) mod 60000000000
          div 1000000000))"
    and "MinutesText (setTimeLeft 59900000000 (New 0)) = '' 1''"
    and "SecondsText (setTimeLeft 59900000000 (New 0)) = ''00''"
    by blast+
  with h show ?thesis
    unfolding v by blast
qed

lemma formatUint_length_3_exact:
  "100 \<le> n \<Longrightarrow> n < 1000 \<Longrightarrow> length (formatUint n) = 3"
proof -
  assume n: "100 \<le> n" "n < 1000"
  then have "10 \<le> n div 10" "n div 10 < 100"
    by simp_all
  then have "length (formatUint (n div 10)) = 2"
    by (rule formatUint_length_2)
  with n show ?thesis
    by (subst formatUint.simps) simp
qed

lemma Sprintf_2d_length_3: "100 \<le> n \<Longrightarrow> n < 1000 \<Longrightarrow> length (Sprintf_2d n) = 3"
  by (simp add: Sprintf_2d_def pad_length formatUint_length_3_exact)

lemma minutes_three:
  assumes "6000000000000 \<le> (y::int)" "y \<le> 6300200000000"
  shows "100 \<le> nat (y div 60000000000)" "nat (y div 60000000000) < 1000"
proof -
  have "100 \<le> y div 60000000000" "y div 60000000000 < 1000"
    using assms by linarith+
  then show "100 \<le> nat (y div 60000000000)" "nat (y div 60000000000) < 1000"
    by linarith+
qed

text \<open>
  C7 (as amended).  For every remaining duration from 0 up to 105 minutes, the
  longest selectable interval, the seconds string is exactly two zero-padded
  characters, and the minutes string is right-aligned and exactly two characters
  when the duration plus the bias of 200 milliseconds is under 100 minutes, and
  exactly three characters otherwise.  Of the eight selectable intervals, seven are
  shown with two-character minutes and 105 minutes is shown as \<^verbatim>\<open>"105"\<close>.
\<close>

theorem setTimeLeft_widths:
  assumes "0 \<le> sint (d :: Duration)" "sint d \<le> 6300000000000"
  shows "length (SecondsText (setTimeLeft d p)) = 2 \<and>
    length (MinutesText (setTimeLeft d p)) =
      (if sint d + 200000000 < 6000000000000 then 2 else 3) \<and>
    map (\<lambda>d. (MinutesText (setTimeLeft d p), SecondsText (setTimeLeft d p))) buttonIntervals =
     [('' 5'', ''00''), (''15'', ''00''), (''30'', ''00''), (''45'', ''00''),
      (''60'', ''00''), (''75'', ''00''), (''90'', ''00''), (''105'', ''00'')]"
proof (intro conjI)
  let ?x = "sint d + 200000000"
  have x: "0 \<le> ?x" "?x \<le> 6300200000000"
    using assms by simp_all
  have b: "0 \<le> sint d" "?x < 2 ^ 63"
    using assms by simp_all
  show "length (SecondsText (setTimeLeft d p)) = 2"
    unfolding setTimeLeft_nonneg [OF b]
    by (rule Sprintf_02d_length) (rule seconds_lt_100)
  show "length (MinutesText (setTimeLeft d p)) = (if ?x < 6000000000000 then 2 else 3)"
  proof (cases "?x < 6000000000000")
    case True
    with x have "nat (?x div 60000000000) < 100"
      by (simp add: minutes_lt_100)
    then have "length (Sprintf_2d (nat (?x div 60000000000))) = 2"
      by (simp add: Sprintf_2d_length)
    with True show ?thesis
      unfolding setTimeLeft_nonneg [OF b] by simp
  next
    case False
    then have "6000000000000 \<le> ?x"
      by simp
    then have "length (Sprintf_2d (nat (?x div 60000000000))) = 3"
      using x(2) by (intro Sprintf_2d_length_3 minutes_three)
    with False show ?thesis
      unfolding setTimeLeft_nonneg [OF b] by simp
  qed
  show "map (\<lambda>d. (MinutesText (setTimeLeft d p), SecondsText (setTimeLeft d p))) buttonIntervals =
     [('' 5'', ''00''), (''15'', ''00''), (''30'', ''00''), (''45'', ''00''),
      (''60'', ''00''), (''75'', ''00''), (''90'', ''00''), (''105'', ''00'')]"
    by (rule button_display)
qed

theorem setTimeLeft_widths_witness:
  "0 \<le> sint (6300000000000 :: Duration) \<and> sint (6300000000000 :: Duration) \<le> 6300000000000 \<and>
   length (SecondsText (setTimeLeft 6300000000000 (New 0))) = 2 \<and>
   length (MinutesText (setTimeLeft 6300000000000 (New 0))) = 3 \<and>
   length (SecondsText (setTimeLeft 5999700000000 (New 0))) = 2 \<and>
   length (MinutesText (setTimeLeft 5999700000000 (New 0))) = 2"
proof -
  have h: "0 \<le> sint (6300000000000 :: Duration)" "sint (6300000000000 :: Duration) \<le> 6300000000000"
    by simp_all
  have k: "0 \<le> sint (5999700000000 :: Duration)" "sint (5999700000000 :: Duration) \<le> 6300000000000"
    by simp_all
  show ?thesis
    using setTimeLeft_widths [OF h, of "New 0"] setTimeLeft_widths [OF k, of "New 0"]
    by simp
qed

text \<open>
  The 105-minute button is one of the eight, and selecting it hands a
  three-character minutes string to the display.
\<close>

theorem minutes_width_counterexample:
  "105 * Minute \<in> set buttonIntervals \<and>
   MinutesText (SetNextInterval (105 * Minute) 0 (New 0)) = ''105'' \<and>
   length (MinutesText (SetNextInterval (105 * Minute) 0 (New 0))) \<noteq> 2"
  by code_simp

section \<open>Selecting an interval\<close>

text \<open>
  C3.  \<^verbatim>\<open>SetNextInterval(d)\<close> updates exactly one of the two configured intervals,
  chosen by the value of \<^verbatim>\<open>IsWork\<close> at the call: the work interval becomes \<open>d\<close> and the
  rest interval is unchanged when \<^verbatim>\<open>IsWork\<close> holds, and the rest interval becomes \<open>d\<close>
  and the work interval is unchanged when it does not.  The phase itself is unchanged.
\<close>

theorem SetNextInterval_one_interval:
  "NextWorkInterval (SetNextInterval d now p) = (if IsWork p then d else NextWorkInterval p) \<and>
   NextRestInterval (SetNextInterval d now p) = (if IsWork p then NextRestInterval p else d) \<and>
   IsWork (SetNextInterval d now p) = IsWork p"
  by (simp add: SetNextInterval_def Let_def)

lemma display_nonneg:
  assumes "0 \<le> sint (d :: Duration)" "sint d + 200000000 < 2 ^ 63"
  shows "Sprintf_2d (unat (duration_div (d + 200000000) 60000000000)) =
           Sprintf_2d (nat ((sint d + 200000000) div 60000000000))"
    and "Sprintf_02d (unat (duration_div (duration_rem (d + 200000000) 60000000000) 1000000000)) =
           Sprintf_02d (nat ((sint d + 200000000) mod 60000000000 div 1000000000))"
  using setTimeLeft_texts [of d "New 0"] setTimeLeft_nonneg [OF assms, of "New 0"]
  by simp_all

lemma SetNextInterval_texts:
  "MinutesText (SetNextInterval d now p) =
     Sprintf_2d (unat (duration_div (d + 200000000) 60000000000))"
  "SecondsText (SetNextInterval d now p) =
     Sprintf_02d (unat (duration_div (duration_rem (d + 200000000) 60000000000) 1000000000))"
  by (simp_all add: SetNextInterval_def Let_def setTimeLeft_texts)

text \<open>
  C10.  In every state, with or without a countdown running, \<^verbatim>\<open>SetNextInterval(d)\<close>
  sets the deadline to now plus \<open>d\<close> and shows \<open>d\<close> as the remaining time: the minutes
  and seconds displayed are those of \<open>d\<close> plus the bias of 200 milliseconds, which for
  a \<open>d\<close> that is not negative are \<open>(d + 200000000) div 60000000000\<close> minutes and the
  whole seconds of the rest.  It does not touch the cancellation handle.  From the
  idle state after \<^verbatim>\<open>New\<close>, selecting 5 minutes at instant 7 sets the deadline to
  7 plus 5 minutes and displays \<^verbatim>\<open>" 5"\<close> and \<^verbatim>\<open>"00"\<close>.
\<close>

theorem SetNextInterval_deadline_display:
  "Deadline (SetNextInterval d now p) = now + sint d \<and>
   MinutesText (SetNextInterval d now p) =
     Sprintf_2d (unat (duration_div (d + 200000000) 60000000000)) \<and>
   SecondsText (SetNextInterval d now p) =
     Sprintf_02d (unat (duration_div (duration_rem (d + 200000000) 60000000000) 1000000000)) \<and>
   (0 \<le> sint d \<and> sint d + 200000000 < 2 ^ 63 \<longrightarrow>
      MinutesText (SetNextInterval d now p) =
        Sprintf_2d (nat ((sint d + 200000000) div 60000000000)) \<and>
      SecondsText (SetNextInterval d now p) =
        Sprintf_02d (nat ((sint d + 200000000) mod 60000000000 div 1000000000))) \<and>
   TickerCancel (SetNextInterval d now p) = TickerCancel p \<and>
   TickerCancel (New 0) = None \<and>
   Deadline (SetNextInterval 300000000000 7 (New 0)) = 300000000007 \<and>
   MinutesText (SetNextInterval 300000000000 7 (New 0)) = '' 5'' \<and>
   SecondsText (SetNextInterval 300000000000 7 (New 0)) = ''00''"
proof -
  have "Deadline (SetNextInterval d now p) = now + sint d"
    and "TickerCancel (SetNextInterval d now p) = TickerCancel p"
    by (simp_all add: SetNextInterval_def Let_def time_Add_def)
  moreover have "TickerCancel (New 0) = None"
    and "Deadline (SetNextInterval 300000000000 7 (New 0)) = 300000000007"
    and "MinutesText (SetNextInterval 300000000000 7 (New 0)) = '' 5''"
    and "SecondsText (SetNextInterval 300000000000 7 (New 0)) = ''00''"
    by code_simp+
  ultimately show ?thesis
    using SetNextInterval_texts [of d now p] display_nonneg [of d]
    by simp
qed

theorem SetNextInterval_deadline_display_witness:
  "0 \<le> sint (6300000000000 :: Duration) \<and>
   sint (6300000000000 :: Duration) + 200000000 < 2 ^ 63 \<and>
   MinutesText (SetNextInterval 6300000000000 0 (Start False 0 (New 0))) =
     Sprintf_2d (nat (6300200000000 div 60000000000)) \<and>
   SecondsText (SetNextInterval 6300000000000 0 (Start False 0 (New 0))) =
     Sprintf_02d (nat (6300200000000 mod 60000000000 div 1000000000)) \<and>
   Deadline (SetNextInterval 6300000000000 0 (Start False 0 (New 0))) = 6300000000000"
proof -
  have h: "0 \<le> sint (6300000000000 :: Duration) \<and>
      sint (6300000000000 :: Duration) + 200000000 < 2 ^ 63"
    by simp
  have v: "sint (6300000000000 :: Duration) + 200000000 = 6300200000000"
      "0 + sint (6300000000000 :: Duration) = 6300000000000"
    by simp_all
  from SetNextInterval_deadline_display [of 6300000000000 0 "Start False 0 (New 0)"] h
  have "MinutesText (SetNextInterval 6300000000000 0 (Start False 0 (New 0))) =
        Sprintf_2d (nat ((sint (6300000000000 :: Duration) + 200000000) div 60000000000))"
    and "SecondsText (SetNextInterval 6300000000000 0 (Start False 0 (New 0))) =
        Sprintf_02d (nat ((sint (6300000000000 :: Duration) + 200000000) mod 60000000000
          div 1000000000))"
    and "Deadline (SetNextInterval 6300000000000 0 (Start False 0 (New 0))) =
        0 + sint (6300000000000 :: Duration)"
    by blast+
  with h show ?thesis
    unfolding v by blast
qed

section \<open>Starting a phase\<close>

lemma Start_texts:
  "MinutesText (Start b now w) =
     Sprintf_2d (unat (duration_div
       ((if b then NextWorkInterval w else NextRestInterval w) + 200000000) 60000000000))"
  "SecondsText (Start b now w) =
     Sprintf_02d (unat (duration_div (duration_rem
       ((if b then NextWorkInterval w else NextRestInterval w) + 200000000) 60000000000)
       1000000000))"
  by (cases "TickerCancel w"; cases b; simp add: Start_def Let_def setTimeLeft_texts)+

text \<open>
  C2.  \<^verbatim>\<open>Start(p)\<close> sets \<^verbatim>\<open>IsWork\<close> to \<open>p\<close>, sets the deadline to now plus the configured
  interval of that phase, sets the label to \<^verbatim>\<open>"FOCUS"\<close> for work and \<^verbatim>\<open>"REST"\<close> for rest,
  shows that phase's configured interval as the remaining time (the minutes and
  seconds of the interval plus the bias of 200 milliseconds, which for an interval
  \<open>d\<close> that is not negative are \<open>(d + 200000000) div 60000000000\<close> minutes and the whole
  seconds of the rest), cancels the context of the stored handle (if any), stores
  the handle of a fresh context, and launches one goroutine on a ticker with a
  period of one second.  The configured intervals are unchanged.
\<close>

theorem Start_effect:
  "IsWork (Start b now w) = b \<and>
   Deadline (Start b now w) = now + sint (if b then NextWorkInterval w else NextRestInterval w) \<and>
   Description (Start b now w) = (if b then ''FOCUS'' else ''REST'') \<and>
   MinutesText (Start b now w) =
     Sprintf_2d (unat (duration_div
       ((if b then NextWorkInterval w else NextRestInterval w) + 200000000) 60000000000)) \<and>
   SecondsText (Start b now w) =
     Sprintf_02d (unat (duration_div (duration_rem
       ((if b then NextWorkInterval w else NextRestInterval w) + 200000000) 60000000000)
       1000000000)) \<and>
   (0 \<le> sint (if b then NextWorkInterval w else NextRestInterval w) \<and>
    sint (if b then NextWorkInterval w else NextRestInterval w) + 200000000 < 2 ^ 63 \<longrightarrow>
      MinutesText (Start b now w) =
        Sprintf_2d (nat ((sint (if b then NextWorkInterval w else NextRestInterval w)
          + 200000000) div 60000000000)) \<and>
      SecondsText (Start b now w) =
        Sprintf_02d (nat ((sint (if b then NextWorkInterval w else NextRestInterval w)
          + 200000000) mod 60000000000 div 1000000000))) \<and>
   NextWorkInterval (Start b now w) = NextWorkInterval w \<and>
   NextRestInterval (Start b now w) = NextRestInterval w \<and>
   TickerCancel (Start b now w) = Some (length (tickers w)) \<and>
   tickers (Start b now w) =
     (case TickerCancel w of None \<Rightarrow> tickers w | Some c \<Rightarrow> cancel c (tickers w)) @
     [\<lparr>ctx_done = False, ticker_period = 1000000000, at = AtFirstTick\<rparr>] \<and>
   (\<forall>c. TickerCancel w = Some c \<and> c < length (tickers w) \<longrightarrow>
      ctx_done (tickers (Start b now w) ! c))"
proof -
  let ?iv = "if b then NextWorkInterval w else NextRestInterval w"
  have frame: "IsWork (Start b now w) = b \<and>
     Deadline (Start b now w) = now + sint ?iv \<and>
     Description (Start b now w) = (if b then ''FOCUS'' else ''REST'') \<and>
     NextWorkInterval (Start b now w) = NextWorkInterval w \<and>
     NextRestInterval (Start b now w) = NextRestInterval w \<and>
     TickerCancel (Start b now w) = Some (length (tickers w)) \<and>
     tickers (Start b now w) =
       (case TickerCancel w of None \<Rightarrow> tickers w | Some c \<Rightarrow> cancel c (tickers w)) @
       [\<lparr>ctx_done = False, ticker_period = 1000000000, at = AtFirstTick\<rparr>] \<and>
     (\<forall>c. TickerCancel w = Some c \<and> c < length (tickers w) \<longrightarrow>
        ctx_done (tickers (Start b now w) ! c))"
    by (cases "TickerCancel w")
       (simp_all add: Start_def Let_def time_Add_def Second_def Millisecond_def nth_append
          cancel_nth)
  have m: "MinutesText (Start b now w) =
      Sprintf_2d (unat (duration_div (?iv + 200000000) 60000000000))"
    and s: "SecondsText (Start b now w) =
      Sprintf_02d (unat (duration_div (duration_rem (?iv + 200000000) 60000000000)
        1000000000))"
    by (rule Start_texts)+
  have i: "MinutesText (Start b now w) =
        Sprintf_2d (nat ((sint ?iv + 200000000) div 60000000000)) \<and>
      SecondsText (Start b now w) =
        Sprintf_02d (nat ((sint ?iv + 200000000) mod 60000000000 div 1000000000))"
    if "0 \<le> sint ?iv \<and> sint ?iv + 200000000 < 2 ^ 63"
    using that display_nonneg [of ?iv] unfolding m s by blast
  from frame m s i show ?thesis
    by blast
qed

theorem Start_effect_witness:
  "TickerCancel (Start True 0 (New 0)) = Some 0 \<and>
   0 < length (tickers (Start True 0 (New 0))) \<and>
   ctx_done (tickers (Start False 5 (Start True 0 (New 0))) ! 0) \<and>
   TickerCancel (Start False 5 (Start True 0 (New 0))) = Some 1 \<and>
   0 \<le> sint (900000000000 :: Duration) \<and>
   sint (900000000000 :: Duration) + 200000000 < 2 ^ 63 \<and>
   MinutesText (Start False 5 (Start True 0 (New 0))) =
     Sprintf_2d (nat (900200000000 div 60000000000)) \<and>
   SecondsText (Start False 5 (Start True 0 (New 0))) =
     Sprintf_02d (nat (900200000000 mod 60000000000 div 1000000000))"
proof -
  let ?w = "Start True 0 (New 0)"
  have h: "TickerCancel ?w = Some 0 \<and> 0 < length (tickers ?w)"
    by code_simp
  have l: "Some (length (tickers ?w)) = Some 1"
    by code_simp
  have iv: "(if False then NextWorkInterval ?w else NextRestInterval ?w) = 900000000000"
    by code_simp
  have p: "0 \<le> sint (900000000000 :: Duration) \<and>
      sint (900000000000 :: Duration) + 200000000 < 2 ^ 63"
    by simp
  have v: "sint (900000000000 :: Duration) + 200000000 = 900200000000"
    by simp
  note t = Start_effect [of False 5 ?w, unfolded iv]
  from t
  have a: "\<forall>c. TickerCancel ?w = Some c \<and> c < length (tickers ?w) \<longrightarrow>
             ctx_done (tickers (Start False 5 ?w) ! c)"
    and b: "TickerCancel (Start False 5 ?w) = Some (length (tickers ?w))"
    by blast+
  from t p
  have m: "MinutesText (Start False 5 ?w) =
        Sprintf_2d (nat ((sint (900000000000 :: Duration) + 200000000) div 60000000000))"
    and s: "SecondsText (Start False 5 ?w) =
        Sprintf_02d (nat ((sint (900000000000 :: Duration) + 200000000) mod 60000000000
          div 1000000000))"
    by blast+
  from a h have "ctx_done (tickers (Start False 5 ?w) ! 0)"
    by blast
  with h b l p m s show ?thesis
    unfolding v by simp
qed

section \<open>Startup\<close>

lemma display_60:
  "MinutesText (setTimeLeft 3600000000000 p) = ''60''"
  "SecondsText (setTimeLeft 3600000000000 p) = ''00''"
  by (simp_all add: setTimeLeft_def Let_def Minute_def Second_def Millisecond_def
      duration_div_def duration_rem_def signed_divide_int_def signed_modulo_int_def
      Sprintf_2d_def Sprintf_02d_def pad_def fmt_buttons)

lemma display_15:
  "MinutesText (setTimeLeft 900000000000 p) = ''15''"
  "SecondsText (setTimeLeft 900000000000 p) = ''00''"
  by (simp_all add: setTimeLeft_def Let_def Minute_def Second_def Millisecond_def
      duration_div_def duration_rem_def signed_divide_int_def signed_modulo_int_def
      Sprintf_2d_def Sprintf_02d_def pad_def fmt_buttons)

lemma minutes_values:
  "(60 * Minute :: Duration) = 3600000000000" "(15 * Minute :: Duration) = 900000000000"
  by (simp_all add: Minute_def Second_def Millisecond_def)

lemma New_fields:
  "Description (New now) = []" "MinutesText (New now) = ''60''" "SecondsText (New now) = ''00''"
  "Delimiter (New now) = Gray 128" "Deadline (New now) = now + 3600000000000"
  "NextWorkInterval (New now) = 3600000000000" "NextRestInterval (New now) = 900000000000"
  "IsWork (New now)" "TickerCancel (New now) = None" "tickers (New now) = []"
  "alarms (New now) = 0" "logged (New now) = []"
  by (simp_all add: New_def SetNextInterval_def Let_def time_Add_def minutes_values display_60)

text \<open>
  C5 (as amended).  \<^verbatim>\<open>New\<close> creates the timer idle (no handle, no goroutine) with
  phase = work, an empty label, a rest interval of 15 minutes and a work interval of
  60 minutes, which is also the time displayed (\<^verbatim>\<open>"60"\<close>, \<^verbatim>\<open>"00"\<close>).  \<^verbatim>\<open>Start(false)\<close> from
  that state sets the label to \<^verbatim>\<open>"REST"\<close>, displays \<^verbatim>\<open>"15"\<close> and \<^verbatim>\<open>"00"\<close>, sets the deadline
  15 minutes ahead and leaves exactly one ticking goroutine, not cancelled.
\<close>

theorem New_then_Start_Rest:
  "TickerCancel (New now) = None \<and> tickers (New now) = [] \<and> alive (New now) = [] \<and>
   IsWork (New now) \<and> Description (New now) = [] \<and>
   NextRestInterval (New now) = 15 * Minute \<and>
   NextWorkInterval (New now) = 60 * Minute \<and>
   MinutesText (New now) = ''60'' \<and> SecondsText (New now) = ''00'' \<and>
   Description (Start False t (New now)) = ''REST'' \<and>
   MinutesText (Start False t (New now)) = ''15'' \<and>
   SecondsText (Start False t (New now)) = ''00'' \<and>
   Deadline (Start False t (New now)) = t + 900000000000 \<and>
   TickerCancel (Start False t (New now)) = Some 0 \<and>
   tickers (Start False t (New now)) =
     [\<lparr>ctx_done = False, ticker_period = Second, at = AtFirstTick\<rparr>] \<and>
   alive (Start False t (New now)) = [0] \<and>
   uncancelled (Start False t (New now)) = [0]"
  by (simp add: New_fields minutes_values display_15 Start_def Let_def time_Add_def
      alive_def uncancelled_def)

text \<open>
  The work interval is not left at its zero value by \<^verbatim>\<open>New\<close>: the closing call of
  \<^verbatim>\<open>SetNextInterval\<close> runs with \<^verbatim>\<open>IsWork = true\<close> and stores 60 minutes in it, so that
  \<^verbatim>\<open>Start(true)\<close> from the startup state counts down from 60 minutes.
\<close>

theorem New_work_interval_counterexample:
  "NextWorkInterval (New 0) \<noteq> 0 \<and> NextWorkInterval (New 0) = 60 * Minute \<and>
   Deadline (Start True 0 (New 0)) = 3600000000000"
  by code_simp

section \<open>The alarm\<close>









section \<open>The ticking goroutines\<close>

lemma set_uncancelled:
  "set (uncancelled w) = {g. g < length (tickers w) \<and> \<not> ctx_done (tickers w ! g)}"
  by (auto simp: uncancelled_def)

lemma set_alive:
  "set (alive w) = {g. g < length (tickers w) \<and> at (tickers w ! g) \<noteq> Returned}"
  by (auto simp: alive_def)

lemma distinct_uncancelled: "distinct (uncancelled w)"
  by (simp add: uncancelled_def)

lemma distinct_singleton:
  assumes "distinct xs" "set xs = {c}"
  shows "xs = [c]"
proof (cases xs)
  case Nil
  with assms show ?thesis by simp
next
  case (Cons a ys)
  with assms have a: "a = c" and "c \<notin> set ys" and "set ys \<subseteq> {c}"
    by auto
  then have "ys = []"
    by (cases ys) auto
  with Cons a show ?thesis
    by simp
qed

lemma uncancelled_same: "tickers w' = tickers w \<Longrightarrow> uncancelled w' = uncancelled w"
  by (simp add: uncancelled_def)

lemma handle_ok_iff:
  "handle_ok w =
     (set (uncancelled w) = (case TickerCancel w of None \<Rightarrow> {} | Some c \<Rightarrow> {c}))"
  using distinct_singleton [OF distinct_uncancelled, of w]
  by (auto simp: handle_ok_def split: option.splits)

text \<open>What each operation does to the goroutines and to the handle.\<close>

lemma Start_tickers:
  "tickers (Start b now w) =
     (case TickerCancel w of None \<Rightarrow> tickers w | Some c \<Rightarrow> cancel c (tickers w)) @
     [\<lparr>ctx_done = False, ticker_period = Second, at = AtFirstTick\<rparr>]"
  "TickerCancel (Start b now w) = Some (length (tickers w))"
  by (cases "TickerCancel w"; simp add: Start_def Let_def)+

lemma StopTimer_tickers:
  "tickers (StopTimer w) =
     (case TickerCancel w of None \<Rightarrow> tickers w | Some c \<Rightarrow> cancel c (tickers w))"
  "TickerCancel (StopTimer w) = None"
  by (cases "TickerCancel w"; simp add: StopTimer_def Let_def)+

lemma endTimer_tickers:
  "tickers (endTimer w) =
     (case TickerCancel w of None \<Rightarrow> tickers w | Some c \<Rightarrow> cancel c (tickers w))"
  "TickerCancel (endTimer w) = None"
  by (cases "TickerCancel w"; simp add: endTimer_def Let_def audioEnabled_def)+

lemma Tick_tickers:
  "tickers (Tick now w) =
     (if Deadline w \<le> now
      then (case TickerCancel w of None \<Rightarrow> tickers w | Some c \<Rightarrow> cancel c (tickers w))
      else tickers w)"
  "TickerCancel (Tick now w) = (if Deadline w \<le> now then None else TickerCancel w)"
  by (cases "TickerCancel w"; simp add: Tick_def Let_def time_Until_expired endTimer_tickers)+

lemma SetNextInterval_tickers:
  "tickers (SetNextInterval d now w) = tickers w"
  "TickerCancel (SetNextInterval d now w) = TickerCancel w"
  by (simp_all add: SetNextInterval_def Let_def)

lemma moveTo_tickers:
  "length (tickers (moveTo g l w)) = length (tickers w)"
  "TickerCancel (moveTo g l w) = TickerCancel w"
  "h < length (tickers w) \<Longrightarrow>
     ctx_done (tickers (moveTo g l w) ! h) = ctx_done (tickers w ! h)"
  "h < length (tickers w) \<Longrightarrow>
     at (tickers (moveTo g l w) ! h) = (if h = g then l else at (tickers w ! h))"
  by (cases "h = g"; simp add: moveTo_def)+

lemma cancel_fields:
  "g < length gs \<Longrightarrow> ctx_done (cancel c gs ! g) = (g = c \<or> ctx_done (gs ! g))"
  "g < length gs \<Longrightarrow> at (cancel c gs ! g) = at (gs ! g)"
  by (simp_all add: cancel_nth)

text \<open>The invariant: the handle and the contexts agree, and a goroutine
  returns only after its context was cancelled.\<close>

lemma agree_iff:
  "agree w =
     ((\<forall>g < length (tickers w).
         (\<not> ctx_done (tickers w ! g)) = (TickerCancel w = Some g) \<and>
         (ctx_done (tickers w ! g) \<or> at (tickers w ! g) \<noteq> Returned)) \<and>
      (\<forall>c. TickerCancel w = Some c \<longrightarrow> c < length (tickers w)))"
  by (cases "TickerCancel w") (simp_all add: agree_def list_all_iff Ball_def)

lemma agree_done:
  "agree w \<Longrightarrow> g < length (tickers w) \<Longrightarrow>
     ctx_done (tickers w ! g) = (TickerCancel w \<noteq> Some g)"
  by (simp add: agree_iff) blast

lemma agree_returned:
  "agree w \<Longrightarrow> g < length (tickers w) \<Longrightarrow> at (tickers w ! g) = Returned \<Longrightarrow>
     ctx_done (tickers w ! g)"
  by (simp add: agree_iff) blast

lemma agree_handle: "agree w \<Longrightarrow> TickerCancel w = Some c \<Longrightarrow> c < length (tickers w)"
  by (simp add: agree_iff)

lemma agree_handle_ok:
  assumes "agree w"
  shows "handle_ok w"
proof (cases "TickerCancel w")
  case None
  with assms have "set (uncancelled w) = {}"
    by (auto simp: set_uncancelled agree_done)
  with None show ?thesis
    by (simp add: handle_ok_def)
next
  case (Some c)
  with assms have "set (uncancelled w) = {c}"
    by (auto simp: set_uncancelled agree_done agree_handle)
  with Some show ?thesis
    by (simp add: handle_ok_iff)
qed

lemma agree_alive:
  assumes "agree w"
  shows "set (uncancelled w) \<subseteq> set (alive w)"
  using assms agree_returned [of w] by (auto simp: set_uncancelled set_alive)

lemma agree_New: "agree (New now)"
  by (simp add: agree_def New_fields)

lemma agree_SetNextInterval: "agree w \<Longrightarrow> agree (SetNextInterval d now w)"
  by (simp add: agree_iff SetNextInterval_tickers)

lemma agree_cancel:
  assumes "agree w"
    and t: "tickers w' =
      (case TickerCancel w of None \<Rightarrow> tickers w | Some c \<Rightarrow> cancel c (tickers w))"
    and h: "TickerCancel w' = None"
  shows "agree w'"
proof -
  have len: "length (tickers w') = length (tickers w)"
    using t by (cases "TickerCancel w") simp_all
  have "ctx_done (tickers w' ! g)" if g: "g < length (tickers w)" for g
  proof (cases "TickerCancel w")
    case None
    with t g agree_done [OF assms(1) g] show ?thesis
      by simp
  next
    case (Some c)
    with t g agree_done [OF assms(1) g] show ?thesis
      by (auto simp: cancel_fields)
  qed
  with len h show ?thesis
    by (simp add: agree_iff)
qed


lemma agree_StopTimer: "agree w \<Longrightarrow> agree (StopTimer w)"
  by (rule agree_cancel) (simp_all add: StopTimer_tickers)

lemma agree_endTimer: "agree w \<Longrightarrow> agree (endTimer w)"
  by (rule agree_cancel) (simp_all add: endTimer_tickers)


lemma agree_Tick:
  assumes "agree w"
  shows "agree (Tick now w)"
proof (cases "Deadline w \<le> now")
  case True
  with assms show ?thesis
    by (elim agree_cancel) (simp_all add: Tick_tickers)
next
  case False
  with assms show ?thesis
    by (simp add: agree_iff Tick_tickers)
qed

lemma agree_Start:
  assumes "agree w"
  shows "agree (Start b now w)"
proof -
  let ?gs = "case TickerCancel w of None \<Rightarrow> tickers w | Some c \<Rightarrow> cancel c (tickers w)"
  have len: "length ?gs = length (tickers w)"
    by (cases "TickerCancel w") simp_all
  have old: "ctx_done (?gs ! g)" if g: "g < length (tickers w)" for g
  proof (cases "TickerCancel w")
    case None
    with g agree_done [OF assms g] show ?thesis
      by simp
  next
    case (Some c)
    with g agree_done [OF assms g] show ?thesis
      by (auto simp: cancel_fields)
  qed
  show ?thesis
    unfolding agree_iff Start_tickers
    using len old by (auto simp: nth_append less_Suc_eq)
qed

lemma agree_moveTo_AtSelect: "agree w \<Longrightarrow> agree (moveTo g AtSelect w)"
  by (simp add: agree_iff moveTo_tickers)

lemma agree_moveTo_Returned:
  "agree w \<Longrightarrow> g < length (tickers w) \<Longrightarrow> ctx_done (tickers w ! g) \<Longrightarrow>
   agree (moveTo g Returned w)"
  by (simp add: agree_iff moveTo_tickers)

lemma agree_step: "agree w \<Longrightarrow> step e w = Some w' \<Longrightarrow> agree w'"
  by (cases e)
     (auto simp: agree_Start agree_StopTimer agree_SetNextInterval agree_Tick
        agree_moveTo_AtSelect agree_moveTo_Returned split: if_splits)

lemma agree_run: "agree w \<Longrightarrow> run evs w = Some w' \<Longrightarrow> agree w'"
proof (induction evs arbitrary: w)
  case Nil
  then show ?case by simp
next
  case (Cons e evs)
  from Cons.prems(2) obtain w1 where s: "step e w = Some w1" and r: "run evs w1 = Some w'"
    by (auto split: option.splits)
  from Cons.prems(1) s have "agree w1"
    by (rule agree_step)
  then show ?case
    using r by (rule Cons.IH)
qed

text \<open>
  C9 (as amended).  In every state the program can reach, at most one ticking
  goroutine has a context that is not cancelled: the handle is present exactly when
  there is such a goroutine, the handle is the cancel function of that goroutine's
  context, and that goroutine has not returned.  Every \<^verbatim>\<open>Start\<close> cancels the context
  of the stored handle and installs the handle of the new goroutine, which is then
  the only one not cancelled.  Nothing is said about goroutines that are cancelled
  and have not returned yet.
\<close>

theorem at_most_one_uncancelled:
  assumes "run evs (New now) = Some w"
  shows "uncancelled w = (case TickerCancel w of None \<Rightarrow> [] | Some c \<Rightarrow> [c]) \<and>
    length (uncancelled w) \<le> 1 \<and>
    set (uncancelled w) \<subseteq> set (alive w) \<and>
    uncancelled (Start b t w) = [length (tickers w)] \<and>
    TickerCancel (Start b t w) = Some (length (tickers w))"
proof -
  from agree_New assms have a: "agree w"
    by (rule agree_run)
  then have h: "uncancelled w = (case TickerCancel w of None \<Rightarrow> [] | Some c \<Rightarrow> [c])"
    using agree_handle_ok [of w] by (simp add: handle_ok_def)
  then have l: "length (uncancelled w) \<le> 1"
    by (cases "TickerCancel w") simp_all
  from a have "agree (Start b t w)"
    by (rule agree_Start)
  then have "handle_ok (Start b t w)"
    by (rule agree_handle_ok)
  then have s: "uncancelled (Start b t w) = [length (tickers w)]"
    by (simp add: handle_ok_def Start_tickers)
  from h l s agree_alive [OF a] show ?thesis
    by (simp add: Start_tickers)
qed

theorem at_most_one_uncancelled_witness:
  "run [CallStart True 0, CallStart True 5] (New 0) = Some (Start True 5 (Start True 0 (New 0))) \<and>
   uncancelled (Start True 5 (Start True 0 (New 0))) = [1] \<and>
   TickerCancel (Start True 5 (Start True 0 (New 0))) = Some 1 \<and>
   set (uncancelled (Start True 5 (Start True 0 (New 0)))) \<subseteq>
     set (alive (Start True 5 (Start True 0 (New 0))))"
proof -
  have r: "run [CallStart True 0, CallStart True 5] (New 0) =
      Some (Start True 5 (Start True 0 (New 0)))"
    by simp
  have t: "TickerCancel (Start True 5 (Start True 0 (New 0))) = Some 1"
    by code_simp
  from at_most_one_uncancelled [OF r, of True 0]
  have u: "uncancelled (Start True 5 (Start True 0 (New 0))) =
      (case TickerCancel (Start True 5 (Start True 0 (New 0))) of None \<Rightarrow> [] | Some c \<Rightarrow> [c])"
    and s: "set (uncancelled (Start True 5 (Start True 0 (New 0)))) \<subseteq>
      set (alive (Start True 5 (Start True 0 (New 0))))"
    by blast+
  from u t have "uncancelled (Start True 5 (Start True 0 (New 0))) = [1]"
    by simp
  with r t s show ?thesis
    by blast
qed

text \<open>
  After two calls of \<^verbatim>\<open>Start\<close> both goroutines are alive; after \<^verbatim>\<open>StopTimer\<close> the handle
  is absent while a goroutine is still alive; and a goroutine whose context the
  second \<^verbatim>\<open>Start\<close> has cancelled still runs a \<^verbatim>\<open>Tick\<close> that changes the delimiter.
\<close>

theorem two_goroutines_counterexample:
  "map_option alive (run [CallStart True 0, CallStart True 0] (New 0)) = Some [0, 1] \<and>
   map_option (\<lambda>w. (TickerCancel w, alive w))
     (run [CallStart True 0, TickerTick 0 0, CallStopTimer] (New 0)) = Some (None, [0]) \<and>
   map_option Delimiter
     (run [CallStart True 0, TickerTick 0 0, CallStart True 1000000000] (New 0)) =
     Some (Gray 22) \<and>
   map_option Delimiter
     (run [CallStart True 0, TickerTick 0 0, CallStart True 1000000000,
           TickerTick 0 1000000000] (New 0)) =
     Some (Gray 128)"
  by code_simp

section \<open>Stopping\<close>

lemma StopTimer_uncancelled:
  assumes "handle_ok w"
  shows "uncancelled (StopTimer w) = []"
proof (cases "TickerCancel w")
  case None
  with assms have "uncancelled w = []"
    by (simp add: handle_ok_def)
  moreover from None have "tickers (StopTimer w) = tickers w"
    by (simp add: StopTimer_tickers)
  then have "uncancelled (StopTimer w) = uncancelled w"
    by (rule uncancelled_same)
  ultimately show ?thesis
    by simp
next
  case (Some c)
  with assms have st: "set (uncancelled w) = {c}"
    by (simp add: handle_ok_def)
  have "ctx_done (tickers (StopTimer w) ! g)" if g: "g < length (tickers w)" for g
  proof (cases "ctx_done (tickers w ! g)")
    case True
    with g Some show ?thesis
      by (simp add: StopTimer_tickers cancel_fields)
  next
    case False
    with g have "g \<in> set (uncancelled w)"
      by (simp add: set_uncancelled)
    with st have "g = c"
      by simp
    with g Some show ?thesis
      by (simp add: StopTimer_tickers cancel_fields)
  qed
  moreover have "length (tickers (StopTimer w)) = length (tickers w)"
    using Some by (simp add: StopTimer_tickers)
  ultimately show ?thesis
    by (simp add: uncancelled_def filter_empty_conv)
qed

text \<open>
  C6 (as amended).  \<^verbatim>\<open>StopTimer\<close>, from any state, empties the phase label, sets the
  delimiter to its idle weight, cancels the context of the stored handle and clears
  the handle, and leaves both configured intervals, the phase, the deadline and the
  displayed time unchanged.  When the handle and the contexts agree, as they do in
  every reachable state, no goroutine's context is left un-cancelled, so every
  ticking loop returns once it observes the cancellation.
\<close>

theorem StopTimer_effect:
  "Description (StopTimer w) = [] \<and> Delimiter (StopTimer w) = Gray 128 \<and>
   TickerCancel (StopTimer w) = None \<and>
   tickers (StopTimer w) =
     (case TickerCancel w of None \<Rightarrow> tickers w | Some c \<Rightarrow> cancel c (tickers w)) \<and>
   NextWorkInterval (StopTimer w) = NextWorkInterval w \<and>
   NextRestInterval (StopTimer w) = NextRestInterval w \<and>
   IsWork (StopTimer w) = IsWork w \<and> Deadline (StopTimer w) = Deadline w \<and>
   MinutesText (StopTimer w) = MinutesText w \<and> SecondsText (StopTimer w) = SecondsText w \<and>
   (handle_ok w \<longrightarrow> uncancelled (StopTimer w) = [])"
  using StopTimer_uncancelled [of w]
  by (cases "TickerCancel w") (simp_all add: StopTimer_def Let_def)

theorem StopTimer_effect_witness:
  "handle_ok (Start True 0 (New 0)) \<and>
   uncancelled (Start True 0 (New 0)) = [0] \<and>
   uncancelled (StopTimer (Start True 0 (New 0))) = [] \<and>
   Description (StopTimer (Start True 0 (New 0))) = [] \<and>
   Delimiter (StopTimer (Start True 0 (New 0))) = Gray 128"
proof -
  have h: "handle_ok (Start True 0 (New 0))" "uncancelled (Start True 0 (New 0)) = [0]"
    by code_simp+
  with StopTimer_effect [of "Start True 0 (New 0)"] show ?thesis
    by blast
qed

text \<open>
  A goroutine that has taken its ticker's channel when \<^verbatim>\<open>StopTimer\<close> runs still calls
  \<^verbatim>\<open>Tick\<close> afterwards: the delimiter leaves its idle weight and the displayed time
  moves from 60:00 to 59:59.
\<close>

theorem tick_after_StopTimer_counterexample:
  "map_option (\<lambda>w. (Delimiter w, MinutesText w, SecondsText w))
     (run [CallStart True 0, TickerTick 0 0, CallStopTimer] (New 0)) =
     Some (Gray 128, ''60'', ''00'') \<and>
   map_option (\<lambda>w. (Delimiter w, MinutesText w, SecondsText w))
     (run [CallStart True 0, TickerTick 0 0, CallStopTimer, TickerTick 0 1000000000] (New 0)) =
     Some (Gray 22, ''59'', ''59'')"
  by code_simp

section \<open>The end of a phase\<close>

lemma cancel_handle_uncancelled:
  assumes "handle_ok w"
    and t: "tickers w' =
      (case TickerCancel w of None \<Rightarrow> tickers w | Some c \<Rightarrow> cancel c (tickers w))"
  shows "uncancelled w' = []"
proof (cases "TickerCancel w")
  case None
  with assms have "uncancelled w = []"
    by (simp add: handle_ok_def)
  moreover from None t have "tickers w' = tickers w"
    by simp
  then have "uncancelled w' = uncancelled w"
    by (rule uncancelled_same)
  ultimately show ?thesis
    by simp
next
  case (Some c)
  with assms have st: "set (uncancelled w) = {c}"
    by (simp add: handle_ok_def)
  from Some t have tw: "tickers w' = cancel c (tickers w)"
    by simp
  have "ctx_done (tickers w' ! g)" if g: "g < length (tickers w)" for g
  proof (cases "ctx_done (tickers w ! g)")
    case True
    with g show ?thesis
      by (simp add: tw cancel_fields)
  next
    case False
    with g have "g \<in> set (uncancelled w)"
      by (simp add: set_uncancelled)
    with st have "g = c"
      by simp
    with g show ?thesis
      by (simp add: tw cancel_fields)
  qed
  moreover have "length (tickers w') = length (tickers w)"
    by (simp add: tw)
  ultimately show ?thesis
    by (simp add: uncancelled_def filter_empty_conv)
qed

lemma Tick_expired_uncancelled:
  assumes "handle_ok w" "Deadline w \<le> now"
  shows "uncancelled (Tick now w) = []"
  using assms(1)
  by (rule cancel_handle_uncancelled) (simp add: Tick_tickers assms(2))

lemma Tick_expired_returns:
  assumes "handle_ok w" "Deadline w \<le> now"
    and g: "g < length (tickers w)" "at (tickers w ! g) \<noteq> Returned"
  shows "step (TickerTick g now) w = Some (moveTo g AtSelect (Tick now w))"
    and "step (TickerDone g) (moveTo g AtSelect (Tick now w)) =
      Some (moveTo g Returned (moveTo g AtSelect (Tick now w)))"
proof -
  show "step (TickerTick g now) w = Some (moveTo g AtSelect (Tick now w))"
    using g by simp
  have len: "length (tickers (Tick now w)) = length (tickers w)"
    by (cases "TickerCancel w") (simp_all add: Tick_tickers)
  have "g \<notin> set (uncancelled (Tick now w))"
    using Tick_expired_uncancelled [OF assms(1,2)] by simp
  with g(1) len have "ctx_done (tickers (Tick now w) ! g)"
    by (simp add: set_uncancelled)
  with g(1) len
  show "step (TickerDone g) (moveTo g AtSelect (Tick now w)) =
      Some (moveTo g Returned (moveTo g AtSelect (Tick now w)))"
    by (simp add: moveTo_tickers)
qed

lemma Tick_expired_texts:
  assumes "Deadline w \<le> now"
  shows "MinutesText (Tick now w) =
     Sprintf_2d (unat (duration_div
       ((if IsWork w then NextRestInterval w else NextWorkInterval w) + 200000000)
       60000000000))"
    and "SecondsText (Tick now w) =
     Sprintf_02d (unat (duration_div (duration_rem
       ((if IsWork w then NextRestInterval w else NextWorkInterval w) + 200000000)
       60000000000) 1000000000))"
  using assms
  by (cases "TickerCancel w"; cases "IsWork w";
      simp add: Tick_expired_eq endTimer_def Let_def audioEnabled_def setTimeLeft_texts)+

text \<open>
  C1 (as amended).  A tick that observes now \<open>\<ge>\<close> deadline performs the phase-end
  transition: it cancels the context of the stored handle and clears the handle,
  toggles the phase, and shows the other phase's label and that phase's full
  configured interval (the minutes and seconds of that interval plus the bias of
  200 milliseconds); the expired remaining time is not written to the display.
  The deadline is not recomputed: it keeps its expired value.  The configured
  intervals are unchanged.  When the handle and the contexts agree, as they do in
  every reachable state, no context is left un-cancelled, and the goroutine that
  made the tick can return at the \<^verbatim>\<open>select\<close> that follows.  That the transition
  happens only once for a deadline is not part of the statement.
\<close>

theorem Tick_expired:
  assumes "Deadline w \<le> now"
  shows "IsWork (Tick now w) = (\<not> IsWork w) \<and>
   Deadline (Tick now w) = Deadline w \<and>
   Description (Tick now w) = (if IsWork w then ''REST'' else ''FOCUS'') \<and>
   MinutesText (Tick now w) =
     Sprintf_2d (unat (duration_div
       ((if IsWork w then NextRestInterval w else NextWorkInterval w) + 200000000)
       60000000000)) \<and>
   SecondsText (Tick now w) =
     Sprintf_02d (unat (duration_div (duration_rem
       ((if IsWork w then NextRestInterval w else NextWorkInterval w) + 200000000)
       60000000000) 1000000000)) \<and>
   (0 \<le> sint (if IsWork w then NextRestInterval w else NextWorkInterval w) \<and>
    sint (if IsWork w then NextRestInterval w else NextWorkInterval w) + 200000000 < 2 ^ 63 \<longrightarrow>
      MinutesText (Tick now w) =
        Sprintf_2d (nat ((sint (if IsWork w then NextRestInterval w else NextWorkInterval w)
          + 200000000) div 60000000000)) \<and>
      SecondsText (Tick now w) =
        Sprintf_02d (nat ((sint (if IsWork w then NextRestInterval w else NextWorkInterval w)
          + 200000000) mod 60000000000 div 1000000000))) \<and>
   NextWorkInterval (Tick now w) = NextWorkInterval w \<and>
   NextRestInterval (Tick now w) = NextRestInterval w \<and>
   TickerCancel (Tick now w) = None \<and>
   tickers (Tick now w) =
     (case TickerCancel w of None \<Rightarrow> tickers w | Some c \<Rightarrow> cancel c (tickers w)) \<and>
   (handle_ok w \<longrightarrow> uncancelled (Tick now w) = []) \<and>
   (handle_ok w \<and> g < length (tickers w) \<and> at (tickers w ! g) \<noteq> Returned \<longrightarrow>
      step (TickerTick g now) w = Some (moveTo g AtSelect (Tick now w)) \<and>
      step (TickerDone g) (moveTo g AtSelect (Tick now w)) =
        Some (moveTo g Returned (moveTo g AtSelect (Tick now w))))"
proof -
  let ?iv = "if IsWork w then NextRestInterval w else NextWorkInterval w"
  have frame: "IsWork (Tick now w) = (\<not> IsWork w) \<and>
     Deadline (Tick now w) = Deadline w \<and>
     Description (Tick now w) = (if IsWork w then ''REST'' else ''FOCUS'') \<and>
     NextWorkInterval (Tick now w) = NextWorkInterval w \<and>
     NextRestInterval (Tick now w) = NextRestInterval w \<and>
     TickerCancel (Tick now w) = None \<and>
     tickers (Tick now w) =
       (case TickerCancel w of None \<Rightarrow> tickers w | Some c \<Rightarrow> cancel c (tickers w))"
    using assms
    by (cases "TickerCancel w")
       (simp_all add: Tick_expired_eq endTimer_def Let_def audioEnabled_def)
  have m: "MinutesText (Tick now w) =
      Sprintf_2d (unat (duration_div (?iv + 200000000) 60000000000))"
    and s: "SecondsText (Tick now w) =
      Sprintf_02d (unat (duration_div (duration_rem (?iv + 200000000) 60000000000)
        1000000000))"
    using assms by (rule Tick_expired_texts)+
  have i: "MinutesText (Tick now w) =
        Sprintf_2d (nat ((sint ?iv + 200000000) div 60000000000)) \<and>
      SecondsText (Tick now w) =
        Sprintf_02d (nat ((sint ?iv + 200000000) mod 60000000000 div 1000000000))"
    if "0 \<le> sint ?iv \<and> sint ?iv + 200000000 < 2 ^ 63"
    using that display_nonneg [of ?iv] unfolding m s by blast
  have u: "uncancelled (Tick now w) = []" if "handle_ok w"
    using that assms by (rule Tick_expired_uncancelled)
  have r: "step (TickerTick g now) w = Some (moveTo g AtSelect (Tick now w)) \<and>
      step (TickerDone g) (moveTo g AtSelect (Tick now w)) =
        Some (moveTo g Returned (moveTo g AtSelect (Tick now w)))"
    if "handle_ok w \<and> g < length (tickers w) \<and> at (tickers w ! g) \<noteq> Returned"
    using that assms Tick_expired_returns [of w now g] by blast
  from frame m s i u r show ?thesis
    by blast
qed

theorem Tick_expired_witness:
  "Deadline (Start True 0 (New 0)) \<le> 3600000000000 \<and>
   handle_ok (Start True 0 (New 0)) \<and>
   0 < length (tickers (Start True 0 (New 0))) \<and>
   at (tickers (Start True 0 (New 0)) ! 0) \<noteq> Returned \<and>
   0 \<le> sint (900000000000 :: Duration) \<and>
   sint (900000000000 :: Duration) + 200000000 < 2 ^ 63 \<and>
   IsWork (Tick 3600000000000 (Start True 0 (New 0))) = False \<and>
   Deadline (Tick 3600000000000 (Start True 0 (New 0))) = 3600000000000 \<and>
   Description (Tick 3600000000000 (Start True 0 (New 0))) = ''REST'' \<and>
   MinutesText (Tick 3600000000000 (Start True 0 (New 0))) =
     Sprintf_2d (nat (900200000000 div 60000000000)) \<and>
   SecondsText (Tick 3600000000000 (Start True 0 (New 0))) =
     Sprintf_02d (nat (900200000000 mod 60000000000 div 1000000000)) \<and>
   TickerCancel (Tick 3600000000000 (Start True 0 (New 0))) = None \<and>
   uncancelled (Tick 3600000000000 (Start True 0 (New 0))) = [] \<and>
   step (TickerDone 0) (moveTo 0 AtSelect (Tick 3600000000000 (Start True 0 (New 0)))) =
     Some (moveTo 0 Returned (moveTo 0 AtSelect (Tick 3600000000000 (Start True 0 (New 0)))))"
proof -
  let ?w = "Start True 0 (New 0)"
  have h: "Deadline ?w \<le> 3600000000000"
    by code_simp
  have k: "handle_ok ?w \<and> 0 < length (tickers ?w) \<and> at (tickers ?w ! 0) \<noteq> Returned"
    by code_simp
  have iv: "(if IsWork ?w then NextRestInterval ?w else NextWorkInterval ?w) = 900000000000"
    by code_simp
  have e: "IsWork ?w = True" "Deadline ?w = 3600000000000"
    by code_simp+
  have p: "0 \<le> sint (900000000000 :: Duration) \<and>
      sint (900000000000 :: Duration) + 200000000 < 2 ^ 63"
    by simp
  have v: "sint (900000000000 :: Duration) + 200000000 = 900200000000"
    by simp
  note t = Tick_expired [OF h, of 0, unfolded iv]
  from t have f: "IsWork (Tick 3600000000000 ?w) = (\<not> IsWork ?w)"
    "Deadline (Tick 3600000000000 ?w) = Deadline ?w"
    "Description (Tick 3600000000000 ?w) = (if IsWork ?w then ''REST'' else ''FOCUS'')"
    "TickerCancel (Tick 3600000000000 ?w) = None"
    by blast+
  from t p have m: "MinutesText (Tick 3600000000000 ?w) =
        Sprintf_2d (nat ((sint (900000000000 :: Duration) + 200000000) div 60000000000))"
    and s: "SecondsText (Tick 3600000000000 ?w) =
        Sprintf_02d (nat ((sint (900000000000 :: Duration) + 200000000) mod 60000000000
          div 1000000000))"
    by blast+
  from t k have u: "uncancelled (Tick 3600000000000 ?w) = []"
    and r: "step (TickerDone 0) (moveTo 0 AtSelect (Tick 3600000000000 ?w)) =
        Some (moveTo 0 Returned (moveTo 0 AtSelect (Tick 3600000000000 ?w)))"
    by blast+
  from h k p f m s u r show ?thesis
    unfolding v e by simp
qed

text \<open>
  A work phase of 60 minutes started at instant 0 and ticked at its deadline: the
  deadline afterwards is not now plus the rest interval.  And when the goroutine
  ticks once more, one second later, before it has taken the channel of its
  cancelled context, the transition happens a second time for the same deadline:
  the phase is back to work and the label to \<^verbatim>\<open>"FOCUS"\<close>.
\<close>

theorem Tick_deadline_counterexample:
  "Deadline (Start True 0 (New 0)) \<le> 3600000000000 \<and>
   Deadline (Tick 3600000000000 (Start True 0 (New 0))) \<noteq>
     time_Add 3600000000000 (NextRestInterval (Start True 0 (New 0))) \<and>
   map_option (\<lambda>w. (IsWork w, Description w, Deadline w))
     (run [CallStart True 0, TickerTick 0 3600000000000] (New 0)) =
     Some (False, ''REST'', 3600000000000) \<and>
   map_option (\<lambda>w. (IsWork w, Description w, Deadline w))
     (run [CallStart True 0, TickerTick 0 3600000000000, TickerTick 0 3601000000000] (New 0)) =
     Some (True, ''FOCUS'', 3600000000000)"
  by code_simp

end
